theory Spec2Isabelle
  imports Main "HOL-Library.Char_ord" "HOL-Library.List_Lexorder" "HOL-Library.Product_Lexorder"
begin

section \<open>Cells, rows and frames\<close>

text \<open>
  A pandas cell is a missing value (\<open>None\<close>, \<open>NaN\<close> and \<open>NaT\<close> are all missing for
  \<open>dropna\<close>, \<open>notna\<close> and \<open>isin\<close>), a Python \<open>str\<close>, a number or a timestamp
  (nanoseconds since the epoch, without time zone). A frame is its list of column labels and
  its rows; a row holds one cell per column position, and a position past the end of a row
  reads as missing.
\<close>

datatype cell = NA | Str string | Num int | Timestamp int

type_synonym row = "cell list"

record dataframe =
  columns :: "string list"
  rows :: "row list"

definition cell_at :: "row \<Rightarrow> nat \<Rightarrow> cell" where
  "cell_at r i = (if i < length r then r ! i else NA)"

definition set_at :: "row \<Rightarrow> nat \<Rightarrow> cell \<Rightarrow> row" where
  "set_at r i v = (r @ replicate (Suc i - length r) NA)[i := v]"

fun index_of :: "'a \<Rightarrow> 'a list \<Rightarrow> nat" where
  "index_of x [] = 0"
| "index_of x (y # ys) = (if x = y then 0 else Suc (index_of x ys))"

definition get_loc :: "dataframe \<Rightarrow> string \<Rightarrow> nat" where
  "get_loc df name = index_of name (columns df)"

text \<open>\<open>df[name]\<close> for a label that occurs once: the cells of that column, one per row.\<close>

definition get_column :: "dataframe \<Rightarrow> string \<Rightarrow> cell list" where
  "get_column df name = map (\<lambda>r. cell_at r (get_loc df name)) (rows df)"

text \<open>\<open>df[name] = values\<close> for an existing label.\<close>

definition set_column :: "string \<Rightarrow> cell list \<Rightarrow> dataframe \<Rightarrow> dataframe" where
  "set_column name vals df =
     df\<lparr>rows := map (\<lambda>(r, v). set_at r (get_loc df name) v) (zip (rows df) vals)\<rparr>"

text \<open>\<open>df.rename(columns=mapping)\<close>: a label that is a key of the dict is replaced.\<close>

definition rename_label :: "(string \<times> string) list \<Rightarrow> string \<Rightarrow> string" where
  "rename_label mapping c = (case map_of mapping c of Some n \<Rightarrow> n | None \<Rightarrow> c)"

definition rename_columns :: "(string \<times> string) list \<Rightarrow> dataframe \<Rightarrow> dataframe" where
  "rename_columns mapping df = df\<lparr>columns := map (rename_label mapping) (columns df)\<rparr>"

text \<open>\<open>df.dropna(subset=labels)\<close>: a row with a missing cell in one of the columns goes.\<close>

definition dropna :: "string list \<Rightarrow> dataframe \<Rightarrow> dataframe" where
  "dropna labels df =
     df\<lparr>rows := filter (\<lambda>r. \<forall>name \<in> set labels. cell_at r (get_loc df name) \<noteq> NA) (rows df)\<rparr>"

text \<open>\<open>df[mask]\<close> with a boolean mask, one entry per row.\<close>

definition select_rows :: "dataframe \<Rightarrow> bool list \<Rightarrow> dataframe" where
  "select_rows df flags = df\<lparr>rows := map fst (filter snd (zip (rows df) flags))\<rparr>"

definition isin :: "string set \<Rightarrow> cell \<Rightarrow> bool" where
  "isin vals c = (case c of Str s \<Rightarrow> s \<in> vals | _ \<Rightarrow> False)"

section \<open>Python strings\<close>

text \<open>
  \<open>str.lower\<close>, \<open>str.upper\<close> and \<open>str.strip\<close> on the characters of a \<open>string\<close>:
  the letters A to Z and a to z change case, and the white space \<open>strip\<close> removes is
  tab, line feed, vertical tab, form feed, carriage return, the four separators 28 to 31 and
  the space. A \<open>string\<close> is a list of 8-bit characters, so these are Python's functions on
  ASCII text; the other characters are left as they are.
\<close>

definition upper_letters :: string where
  "upper_letters = ''ABCDEFGHIJKLMNOPQRSTUVWXYZ''"

definition lower_letters :: string where
  "lower_letters = ''abcdefghijklmnopqrstuvwxyz''"

definition lower_char :: "char \<Rightarrow> char" where
  "lower_char c = (case map_of (zip upper_letters lower_letters) c of Some d \<Rightarrow> d | None \<Rightarrow> c)"

definition upper_char :: "char \<Rightarrow> char" where
  "upper_char c = (case map_of (zip lower_letters upper_letters) c of Some d \<Rightarrow> d | None \<Rightarrow> c)"

definition is_space :: "char \<Rightarrow> bool" where
  "is_space c = (c \<in> set [CHR 0x09, CHR 0x0A, CHR 0x0B, CHR 0x0C, CHR 0x0D,
                           CHR 0x1C, CHR 0x1D, CHR 0x1E, CHR 0x1F, CHR 0x20])"

definition lower :: "string \<Rightarrow> string" where
  "lower s = map lower_char s"

definition upper :: "string \<Rightarrow> string" where
  "upper s = map upper_char s"

definition strip :: "string \<Rightarrow> string" where
  "strip s = rev (dropWhile is_space (rev (dropWhile is_space s)))"

fun split_on :: "char \<Rightarrow> string \<Rightarrow> string list" where
  "split_on sep [] = [[]]"
| "split_on sep (c # cs) =
     (if c = sep then [] # split_on sep cs
      else (case split_on sep cs of w # ws \<Rightarrow> (c # w) # ws | [] \<Rightarrow> [[c]]))"

section \<open>Ordering and deduplication\<close>

text \<open>
  The order of a sorted key column: strings by code point, numbers by value; where a column
  mixes types the model puts numbers before timestamps and timestamps before strings.
  \<open>pd.unique\<close> keeps the first occurrence of each value.
\<close>

definition key_rank :: "cell \<Rightarrow> nat \<times> int \<times> string" where
  "key_rank c = (case c of Num n \<Rightarrow> (0, n, []) | Timestamp t \<Rightarrow> (1, t, [])
                 | Str s \<Rightarrow> (2, 0, s) | NA \<Rightarrow> (3, 0, []))"

fun unique_from :: "'a list \<Rightarrow> 'a list \<Rightarrow> 'a list" where
  "unique_from seen [] = []"
| "unique_from seen (x # xs) =
     (if x \<in> set seen then unique_from seen xs else x # unique_from (x # seen) xs)"

definition pd_unique :: "'a list \<Rightarrow> 'a list" where
  "pd_unique xs = unique_from [] xs"

section \<open>The environment of a call\<close>

text \<open>
  \<open>compute_metrics\<close> calls three things it does not define: \<open>pd.to_datetime\<close> with
  \<open>errors="coerce"\<close> (here \<open>None\<close> when it returns \<open>NaT\<close> or raises),
  \<open>pytz.timezone\<close> (\<open>None\<close> for a name it does not know, else the offset from UTC at an
  instant) and the clock. All instants are nanoseconds since the epoch.
\<close>

record env =
  pd_to_datetime :: "cell \<Rightarrow> int option"
  pytz_timezone :: "string \<Rightarrow> (int \<Rightarrow> int) option"
  utc_now :: int

definition ns_per_day :: int where
  "ns_per_day = 86400000000000"

text \<open>\<open>Timestamp.date()\<close>, as the number of the day since the epoch.\<close>

definition date_of :: "int \<Rightarrow> int" where
  "date_of t = t div ns_per_day"

text \<open>Lines 82 and 83: \<open>datetime.now(tz=pytz.timezone(tz_name)).date()\<close>.\<close>

definition today_local :: "env \<Rightarrow> string \<Rightarrow> int option" where
  "today_local e tz_name =
     (case pytz_timezone e tz_name of
        None \<Rightarrow> None
      | Some local_tz \<Rightarrow> Some (date_of (utc_now e + local_tz (utc_now e))))"

section \<open>The application\<close>

definition normalize_status :: "cell \<Rightarrow> cell" where
  "normalize_status s = (case s of Str x \<Rightarrow> Str (upper (strip x)) | _ \<Rightarrow> s)"

definition coerce_datetime :: "env \<Rightarrow> cell \<Rightarrow> cell" where
  "coerce_datetime e s = (case pd_to_datetime e s of Some t \<Rightarrow> Timestamp t | None \<Rightarrow> NA)"

text \<open>Lines 120 and 121: the alias sets the sidebar texts are parsed into.\<close>

definition parse_aliases :: "string \<Rightarrow> string set" where
  "parse_aliases txt = set (map (\<lambda>s. upper (strip s)) (filter (\<lambda>s. strip s \<noteq> []) (split_on CHR '','' txt)))"

definition default_in_progress_aliases :: string where
  "default_in_progress_aliases = ''IN PROGRESS,IN-PROGRESS,IN_PROGRESS,INPROGRESS''"

definition default_done_aliases :: string where
  "default_done_aliases = ''DONE,CLOSED,RESOLVED''"

subsection \<open>Objects\<close>

text \<open>
  Frames are objects: the caller's frame and the frames the call creates live in a heap and
  are named by their position in it. \<open>rename\<close>, \<open>copy\<close> and \<open>dropna\<close> create a frame, and
  \<open>df[name] = values\<close> changes the frame \<open>df\<close> names.
\<close>

type_synonym ref = nat
type_synonym heap = "dataframe list"

definition alloc :: "heap \<Rightarrow> dataframe \<Rightarrow> ref \<times> heap" where
  "alloc h d = (length h, h @ [d])"

subsection \<open>Column resolution (lines 47 to 51)\<close>

text \<open>The dict \<open>{c.lower(): c for c in df_raw.columns}\<close>: a later column replaces an earlier one.\<close>

definition col_dict :: "string list \<Rightarrow> (string \<rightharpoonup> string)" where
  "col_dict cs = fold (\<lambda>c m. m(lower c \<mapsto> c)) cs Map.empty"

definition required :: "string list" where
  "required = [''key'', ''date of change'', ''status'', ''status [new]'']"

definition missing_columns :: "string list \<Rightarrow> string list" where
  "missing_columns cs = filter (\<lambda>c. col_dict cs c = None) required"

definition rename_dict :: "(string \<rightharpoonup> string) \<Rightarrow> (string \<times> string) list" where
  "rename_dict cols =
     [(the (cols ''key''), ''Key''),
      (the (cols ''date of change''), ''Date of change''),
      (the (cols ''status''), ''Status''),
      (the (cols ''status [new]''), ''Status [new]'')]"

text \<open>
  pandas selects a frame, not a column, for a label that occurs twice, and the steps after the
  renaming are written for columns. The model covers the frames in which each of the four
  labels occurs once after the renaming and stops at the others.
\<close>

definition labels_unique :: "string list \<Rightarrow> bool" where
  "labels_unique cs =
     (\<forall>l \<in> set [''Key'', ''Date of change'', ''Status'', ''Status [new]'']. count_list cs l = 1)"

subsection \<open>The working frame (lines 53 to 64)\<close>

definition prepare :: "env \<Rightarrow> heap \<Rightarrow> ref \<Rightarrow> (string \<rightharpoonup> string) \<Rightarrow> ref \<times> heap" where
  "prepare e h df_raw cols =
     (let (renamed, h1) = alloc h (rename_columns (rename_dict cols) (h ! df_raw));
          (df, h2) = alloc h1 (h1 ! renamed);
          h3 = h2[df := set_column ''Status''
                  (map normalize_status (get_column (h2 ! df) ''Status'')) (h2 ! df)];
          h4 = h3[df := set_column ''Status [new]''
                  (map normalize_status (get_column (h3 ! df) ''Status [new]'')) (h3 ! df)];
          h5 = h4[df := set_column ''Date of change''
                  (map (coerce_datetime e) (get_column (h4 ! df) ''Date of change'')) (h4 ! df)]
      in alloc h5 (dropna [''Key'', ''Date of change''] (h5 ! df)))"

subsection \<open>First transitions (lines 66 to 80)\<close>

fun timestamps :: "cell list \<Rightarrow> int list" where
  "timestamps [] = []"
| "timestamps (Timestamp t # cs) = t # timestamps cs"
| "timestamps (c # cs) = timestamps cs"

text \<open>\<open>min\<close> of a column of timestamps: missing cells are skipped, and a column without a timestamp gives \<open>NaT\<close>.\<close>

definition min_of :: "cell list \<Rightarrow> int option" where
  "min_of vs = (case timestamps vs of [] \<Rightarrow> None | t # ts \<Rightarrow> Some (fold min ts t))"

text \<open>
  \<open>df.groupby(by, as_index=False)[col].min()\<close>: one row for each value of the \<open>by\<close> column
  that is not missing, in sorted order, with the least timestamp of its rows.
\<close>

definition groupby_min :: "dataframe \<Rightarrow> string \<Rightarrow> string \<Rightarrow> (cell \<times> int option) list" where
  "groupby_min df key_col col =
     (let ks = get_column df key_col; vs = get_column df col
      in map (\<lambda>k. (k, min_of (map snd (filter (\<lambda>kv. fst kv = k) (zip ks vs)))))
             (sort_key key_rank (pd_unique (filter (\<lambda>k. k \<noteq> NA) ks))))"

definition first_dates :: "dataframe \<Rightarrow> string set \<Rightarrow> (cell \<times> int option) list" where
  "first_dates df aliases =
     groupby_min (select_rows df (map (isin aliases) (get_column df ''Status [new]'')))
       ''Key'' ''Date of change''"

record transition =
  Key :: cell
  In_Progress_Date :: "int option"
  Done_Date :: "int option"

definition lookup_date :: "(cell \<times> int option) list \<Rightarrow> cell \<Rightarrow> int option" where
  "lookup_date table k = (case map_of table k of Some d \<Rightarrow> d | None \<Rightarrow> None)"

text \<open>\<open>pd.merge(in_prog, done, on="Key", how="outer")\<close> of two tables with one row per key.\<close>

definition merge_outer :: "(cell \<times> int option) list \<Rightarrow> (cell \<times> int option) list \<Rightarrow> transition list" where
  "merge_outer in_prog done =
     map (\<lambda>k. \<lparr>Key = k, In_Progress_Date = lookup_date in_prog k, Done_Date = lookup_date done k\<rparr>)
         (sort_key key_rank (pd_unique (map fst in_prog @ map fst done)))"

subsection \<open>Days and metric type (lines 85 to 103)\<close>

definition row_days :: "int \<Rightarrow> transition \<Rightarrow> int option" where
  "row_days today r =
     (case In_Progress_Date r of
        Some ip \<Rightarrow>
          (case Done_Date r of
             Some dn \<Rightarrow> Some (date_of dn - date_of ip + 1)
           | None \<Rightarrow> Some (today - date_of ip + 1))
      | None \<Rightarrow> None)"

definition row_type :: "transition \<Rightarrow> string option" where
  "row_type r =
     (if Done_Date r \<noteq> None then Some ''Cycle Time''
      else if In_Progress_Date r \<noteq> None then Some ''Work Item Age'' else None)"

record metric_result = transition +
  Days :: "int option"
  Metric_Type :: "string option"

definition with_metrics :: "int \<Rightarrow> transition \<Rightarrow> metric_result" where
  "with_metrics today r =
     \<lparr>Key = Key r, In_Progress_Date = In_Progress_Date r, Done_Date = Done_Date r,
      Days = row_days today r, Metric_Type = row_type r\<rparr>"

subsection \<open>Status catalogue and final order (lines 105 to 110)\<close>

fun strings :: "cell list \<Rightarrow> string list" where
  "strings [] = []"
| "strings (Str s # cs) = s # strings cs"
| "strings (c # cs) = strings cs"

definition unique_statuses :: "dataframe \<Rightarrow> string list" where
  "unique_statuses df =
     sort (strings (pd_unique (filter (\<lambda>c. c \<noteq> NA) (get_column df ''Status'')
                               @ filter (\<lambda>c. c \<noteq> NA) (get_column df ''Status [new]''))))"

text \<open>\<open>sort_values(by=["Metric Type", "Key"])\<close>: ascending, a missing metric type last.\<close>

definition type_rank :: "string option \<Rightarrow> nat \<times> string" where
  "type_rank t = (case t of Some s \<Rightarrow> (0, s) | None \<Rightarrow> (1, []))"

definition sort_values :: "metric_result list \<Rightarrow> metric_result list" where
  "sort_values rs = sort_key (\<lambda>r. (type_rank (Metric_Type r), key_rank (Key r))) rs"

subsection \<open>\<open>compute_metrics\<close>\<close>

datatype error =
    MissingColumns "string list"
  | DuplicateLabels
  | UnknownTimeZoneError string

text \<open>
  \<open>MissingColumns missing\<close> is the \<open>ValueError\<close> of line 51, whose message prints the list,
  and \<open>UnknownTimeZoneError\<close> is what \<open>pytz.timezone\<close> raises at line 82.
  \<open>DuplicateLabels\<close> is no exception of the code: it marks a frame with a repeated label,
  which the model does not follow further. The call returns its result, or where it stops, and
  the heap it leaves.
\<close>

definition compute_metrics ::
  "env \<Rightarrow> heap \<Rightarrow> ref \<Rightarrow> string \<Rightarrow> string set \<Rightarrow> string set
   \<Rightarrow> (error + metric_result list \<times> string list) \<times> heap" where
  "compute_metrics e h df_raw tz_name in_prog_set done_set =
     (let cols = col_dict (columns (h ! df_raw));
          missing = missing_columns (columns (h ! df_raw))
      in if missing \<noteq> [] then (Inl (MissingColumns missing), h)
         else if \<not> labels_unique (map (rename_label (rename_dict cols)) (columns (h ! df_raw)))
         then (Inl DuplicateLabels, h)
         else
           (let (df, h') = prepare e h df_raw cols;
                in_prog = first_dates (h' ! df) in_prog_set;
                done = first_dates (h' ! df) done_set;
                results = merge_outer in_prog done
            in case today_local e tz_name of
                 None \<Rightarrow> (Inl (UnknownTimeZoneError tz_name), h')
               | Some today \<Rightarrow>
                   (Inr (sort_values (map (with_metrics today) results),
                         unique_statuses (h' ! df)), h')))"

section \<open>Events\<close>

text \<open>
  The four fields of an event, read from a row of the caller's frame at the positions of the
  columns that line 47 resolves: the key as it stands, the instant \<open>pd.to_datetime\<close> gives,
  and the two statuses after \<open>normalize_status\<close>. A row is retained when line 64 keeps it.
\<close>

definition col_pos :: "string list \<Rightarrow> string \<Rightarrow> nat" where
  "col_pos cs l = index_of (the (col_dict cs l)) cs"

definition key_of :: "string list \<Rightarrow> row \<Rightarrow> cell" where
  "key_of cs x = cell_at x (col_pos cs ''key'')"

definition changed_at :: "env \<Rightarrow> string list \<Rightarrow> row \<Rightarrow> int option" where
  "changed_at e cs x = pd_to_datetime e (cell_at x (col_pos cs ''date of change''))"

definition status_before :: "string list \<Rightarrow> row \<Rightarrow> cell" where
  "status_before cs x = normalize_status (cell_at x (col_pos cs ''status''))"

definition status_after :: "string list \<Rightarrow> row \<Rightarrow> cell" where
  "status_after cs x = normalize_status (cell_at x (col_pos cs ''status [new]''))"

definition retained :: "env \<Rightarrow> string list \<Rightarrow> row \<Rightarrow> bool" where
  "retained e cs x = (key_of cs x \<noteq> NA \<and> changed_at e cs x \<noteq> None)"

text \<open>The row as lines 60 to 62 leave it.\<close>

definition normalized_row :: "env \<Rightarrow> string list \<Rightarrow> row \<Rightarrow> row" where
  "normalized_row e cs x =
     set_at (set_at (set_at x (col_pos cs ''status'') (status_before cs x))
                    (col_pos cs ''status [new]'') (status_after cs x))
            (col_pos cs ''date of change'') (coerce_datetime e (cell_at x (col_pos cs ''date of change'')))"

text \<open>The frame line 64 leaves: the working event set.\<close>

definition working_frame :: "env \<Rightarrow> dataframe \<Rightarrow> dataframe" where
  "working_frame e raw =
     \<lparr>columns = map (rename_label (rename_dict (col_dict (columns raw)))) (columns raw),
      rows = map (normalized_row e (columns raw)) (filter (retained e (columns raw)) (rows raw))\<rparr>"

text \<open>The instants of the retained events of a key whose new status is in an alias set.\<close>

definition transition_times :: "env \<Rightarrow> dataframe \<Rightarrow> string set \<Rightarrow> cell \<Rightarrow> int set" where
  "transition_times e raw aliases k =
     {t. \<exists>x \<in> set (rows raw). retained e (columns raw) x \<and> key_of (columns raw) x = k
          \<and> isin aliases (status_after (columns raw) x) \<and> changed_at e (columns raw) x = Some t}"


section \<open>A sample call\<close>

text \<open>
  An environment that agrees with pandas on the cells of the examples: a timestamp is
  itself, the two ISO dates are their midnights, and the other cells are no dates. The clock
  stands at 2024-01-08 00:00:00.000000077 UTC.
\<close>

definition sample_env :: env where
  "sample_env =
     \<lparr>pd_to_datetime = (\<lambda>c. case c of
          Timestamp t \<Rightarrow> Some t
        | Str s \<Rightarrow> (if s = ''2024-01-01'' then Some (19723 * ns_per_day)
                    else if s = ''2024-01-05'' then Some (19727 * ns_per_day) else None)
        | _ \<Rightarrow> None),
      pytz_timezone = (\<lambda>n. if n = ''UTC'' then Some (\<lambda>t. 0) else None),
      utc_now = 19730 * ns_per_day + 77\<rparr>"

definition sample_raw :: dataframe where
  "sample_raw =
     \<lparr>columns = [''key'', ''Date of Change'', ''Status'', ''Status [new]''],
      rows = [[Str ''K1'', Str ''2024-01-01'', Str ''To Do'', Str ''In Progress''],
              [Str ''K1'', Str ''2024-01-05'', Str ''In Progress'', Str ''Done''],
              [Str ''K2'', Str ''2024-01-05'', NA, Str ''done''],
              [Str '' '', Str ''2024-01-01'', Str ''To Do'', Str ''in progress ''],
              [Str ''K3'', Str ''not a date'', Str ''Review'', Str ''Done'']]\<rparr>"

text \<open>What the call returns for the sample frame with the default alias sets.\<close>

definition sample_results :: "metric_result list" where
  "sample_results =
     [\<lparr>Key = Str ''K1'', In_Progress_Date = Some 1704067200000000000,
        Done_Date = Some 1704412800000000000, Days = Some 5, Metric_Type = Some ''Cycle Time''\<rparr>,
      \<lparr>Key = Str ''K2'', In_Progress_Date = None,
        Done_Date = Some 1704412800000000000, Days = None, Metric_Type = Some ''Cycle Time''\<rparr>,
      \<lparr>Key = Str '' '', In_Progress_Date = Some 1704067200000000000,
        Done_Date = None, Days = Some 8, Metric_Type = Some ''Work Item Age''\<rparr>]"

definition sample_statuses :: "string list" where
  "sample_statuses = [''DONE'', ''IN PROGRESS'', ''TO DO'']"

text \<open>An item that goes from To Do straight to Done: its only event is a done transition.\<close>

definition done_only_raw :: dataframe where
  "done_only_raw =
     \<lparr>columns = [''Key'', ''Date of change'', ''Status'', ''Status [new]''],
      rows = [[Str ''K2'', Str ''2024-01-05'', Str ''To Do'', Str ''Done'']]\<rparr>"

section \<open>Rows and positions\<close>

lemma cell_at_set_at: "cell_at (set_at r i v) j = (if j = i then v else cell_at r j)"
  by (auto simp: cell_at_def set_at_def nth_list_update nth_append)

lemma nth_index_of: "x \<in> set xs \<Longrightarrow> xs ! index_of x xs = x"
  by (induction xs) auto

lemma index_of_inject:
  "x \<in> set xs \<Longrightarrow> y \<in> set xs \<Longrightarrow> index_of x xs = index_of y xs \<Longrightarrow> x = y"
  by (metis nth_index_of)

lemma index_of_map_unique:
  "count_list (map f xs) y = 1 \<Longrightarrow> x \<in> set xs \<Longrightarrow> f x = y
   \<Longrightarrow> index_of y (map f xs) = index_of x xs"
proof (induction xs)
  case Nil
  then show ?case by simp
next
  case (Cons a xs)
  show ?case
  proof (cases "f a = y")
    case True
    with Cons.prems(1) have "count_list (map f xs) y = 0" by simp
    then have "y \<notin> set (map f xs)" by (simp add: count_list_0_iff)
    with Cons.prems(2,3) have "x = a" by auto
    with True show ?thesis by simp
  next
    case False
    with Cons.prems have "x \<noteq> a" "x \<in> set xs" "count_list (map f xs) y = 1" by auto
    with Cons.IH Cons.prems(3) False show ?thesis by simp
  qed
qed

section \<open>Column resolution\<close>

lemma fold_col_dict_None:
  "fold (\<lambda>c m. m(lower c \<mapsto> c)) cs m l = None \<longleftrightarrow> m l = None \<and> l \<notin> lower ` set cs"
  by (induction cs arbitrary: m) auto

lemma fold_col_dict_Some:
  "fold (\<lambda>c m. m(lower c \<mapsto> c)) cs m l = Some c
   \<Longrightarrow> (c \<in> set cs \<and> lower c = l) \<or> m l = Some c"
proof (induction cs arbitrary: m)
  case Nil
  then show ?case by simp
next
  case (Cons a cs)
  from Cons.IH [of "m(lower a \<mapsto> a)"] Cons.prems
  have "(c \<in> set cs \<and> lower c = l) \<or> (m(lower a \<mapsto> a)) l = Some c" by simp
  then show ?case by (auto split: if_splits)
qed

lemma col_dict_None: "col_dict cs l = None \<longleftrightarrow> l \<notin> lower ` set cs"
  by (simp add: col_dict_def fold_col_dict_None)

lemma col_dict_Some: "col_dict cs l = Some c \<Longrightarrow> c \<in> set cs \<and> lower c = l"
  using fold_col_dict_Some [of cs Map.empty l c] by (simp add: col_dict_def)

lemma missing_columns_eq:
  "missing_columns cs = filter (\<lambda>l. \<forall>c \<in> set cs. lower c \<noteq> l) required"
  by (auto simp: missing_columns_def col_dict_None intro!: filter_cong)

section \<open>The working frame\<close>

lemma set_column_apply:
  "set_column name (map f (get_column df name)) df
   = df\<lparr>rows := map (\<lambda>r. set_at r (get_loc df name) (f (cell_at r (get_loc df name)))) (rows df)\<rparr>"
  by (simp add: set_column_def get_column_def zip_map2 comp_def case_prod_unfold zip_same_conv_map)

lemma prepare_heap:
  "prepare e h r cols =
     (let renamed = rename_columns (rename_dict cols) (h ! r);
          s1 = set_column ''Status'' (map normalize_status (get_column renamed ''Status'')) renamed;
          s2 = set_column ''Status [new]'' (map normalize_status (get_column s1 ''Status [new]'')) s1;
          s3 = set_column ''Date of change'' (map (coerce_datetime e) (get_column s2 ''Date of change'')) s2
      in (Suc (Suc (length h)), h @ [renamed, s3, dropna [''Key'', ''Date of change''] s3]))"
  by (simp add: prepare_def alloc_def Let_def nth_append)

lemma resolved_columns:
  assumes "missing_columns cs = []"
  obtains ck cd cs' cn where
    "col_dict cs ''key'' = Some ck" "col_dict cs ''date of change'' = Some cd"
    "col_dict cs ''status'' = Some cs'" "col_dict cs ''status [new]'' = Some cn"
    "ck \<in> set cs" "cd \<in> set cs" "cs' \<in> set cs" "cn \<in> set cs"
    "lower ck = ''key''" "lower cd = ''date of change''" "lower cs' = ''status''" "lower cn = ''status [new]''"
proof -
  from assms have "\<forall>l \<in> set required. col_dict cs l \<noteq> None"
    by (simp add: missing_columns_def filter_empty_conv)
  then obtain ck cd cs' cn where *:
    "col_dict cs ''key'' = Some ck" "col_dict cs ''date of change'' = Some cd"
    "col_dict cs ''status'' = Some cs'" "col_dict cs ''status [new]'' = Some cn"
    by (auto simp: required_def)
  with col_dict_Some that show thesis by blast
qed

lemma renamed_positions:
  assumes m: "missing_columns cs = []"
    and u: "labels_unique (map (rename_label (rename_dict (col_dict cs))) cs)"
  shows "index_of ''Key'' (map (rename_label (rename_dict (col_dict cs))) cs) = col_pos cs ''key''"
    and "index_of ''Date of change'' (map (rename_label (rename_dict (col_dict cs))) cs) = col_pos cs ''date of change''"
    and "index_of ''Status'' (map (rename_label (rename_dict (col_dict cs))) cs) = col_pos cs ''status''"
    and "index_of ''Status [new]'' (map (rename_label (rename_dict (col_dict cs))) cs) = col_pos cs ''status [new]''"
proof -
  from m obtain ck cd cs' cn where r:
    "col_dict cs ''key'' = Some ck" "col_dict cs ''date of change'' = Some cd"
    "col_dict cs ''status'' = Some cs'" "col_dict cs ''status [new]'' = Some cn"
    "ck \<in> set cs" "cd \<in> set cs" "cs' \<in> set cs" "cn \<in> set cs"
    "lower ck = ''key''" "lower cd = ''date of change''" "lower cs' = ''status''" "lower cn = ''status [new]''"
    by (rule resolved_columns)
  let ?f = "rename_label (rename_dict (col_dict cs))"
  from r(9-12) have ne: "ck \<noteq> cd" "ck \<noteq> cs'" "ck \<noteq> cn" "cd \<noteq> cs'" "cd \<noteq> cn" "cs' \<noteq> cn"
    by auto
  with r(1-4) have f: "?f ck = ''Key''" "?f cd = ''Date of change''" "?f cs' = ''Status''" "?f cn = ''Status [new]''"
    by (auto simp: rename_label_def rename_dict_def)
  from u have c: "count_list (map ?f cs) ''Key'' = 1" "count_list (map ?f cs) ''Date of change'' = 1"
    "count_list (map ?f cs) ''Status'' = 1" "count_list (map ?f cs) ''Status [new]'' = 1"
    by (simp_all add: labels_unique_def)
  show "index_of ''Key'' (map ?f cs) = col_pos cs ''key''"
    using index_of_map_unique [OF c(1) r(5) f(1)] r(1) by (simp add: col_pos_def)
  show "index_of ''Date of change'' (map ?f cs) = col_pos cs ''date of change''"
    using index_of_map_unique [OF c(2) r(6) f(2)] r(2) by (simp add: col_pos_def)
  show "index_of ''Status'' (map ?f cs) = col_pos cs ''status''"
    using index_of_map_unique [OF c(3) r(7) f(3)] r(3) by (simp add: col_pos_def)
  show "index_of ''Status [new]'' (map ?f cs) = col_pos cs ''status [new]''"
    using index_of_map_unique [OF c(4) r(8) f(4)] r(4) by (simp add: col_pos_def)
qed

lemma positions_distinct:
  assumes m: "missing_columns cs = []"
  shows "distinct [col_pos cs ''key'', col_pos cs ''date of change'', col_pos cs ''status'', col_pos cs ''status [new]'']"
proof -
  from m obtain ck cd cs' cn where r:
    "col_dict cs ''key'' = Some ck" "col_dict cs ''date of change'' = Some cd"
    "col_dict cs ''status'' = Some cs'" "col_dict cs ''status [new]'' = Some cn"
    "ck \<in> set cs" "cd \<in> set cs" "cs' \<in> set cs" "cn \<in> set cs"
    "lower ck = ''key''" "lower cd = ''date of change''" "lower cs' = ''status''" "lower cn = ''status [new]''"
    by (rule resolved_columns)
  from r(9-12) have ne: "ck \<noteq> cd" "ck \<noteq> cs'" "ck \<noteq> cn" "cd \<noteq> cs'" "cd \<noteq> cn" "cs' \<noteq> cn"
    by auto
  with r(1-8) show ?thesis
    by (auto simp: col_pos_def dest: index_of_inject)
qed

lemma coerce_datetime_NA: "coerce_datetime e c \<noteq> NA \<longleftrightarrow> pd_to_datetime e c \<noteq> None"
  by (simp add: coerce_datetime_def split: option.splits)

lemma update_columns: "d\<lparr>columns := c\<rparr> = \<lparr>columns = c, rows = rows d\<rparr>"
  by (cases d) simp

lemma apply_frame:
  "set_column name (map f (get_column \<lparr>columns = c, rows = rs\<rparr> name)) \<lparr>columns = c, rows = rs\<rparr>
   = \<lparr>columns = c, rows = map (\<lambda>x. set_at x (index_of name c) (f (cell_at x (index_of name c)))) rs\<rparr>"
  by (simp add: set_column_apply get_loc_def)

lemma dropna_frame:
  "dropna [a, b] \<lparr>columns = c, rows = rs\<rparr>
   = \<lparr>columns = c, rows = filter (\<lambda>x. cell_at x (index_of a c) \<noteq> NA \<and> cell_at x (index_of b c) \<noteq> NA) rs\<rparr>"
  by (simp add: dropna_def get_loc_def)

lemma three_steps:
  assumes "i \<noteq> j" "i \<noteq> k" "j \<noteq> k"
  shows "(\<lambda>x. set_at x k (C (cell_at x k))) ((\<lambda>x. set_at x j (N (cell_at x j))) ((\<lambda>x. set_at x i (N (cell_at x i))) x))
       = set_at (set_at (set_at x i (N (cell_at x i))) j (N (cell_at x j))) k (C (cell_at x k))"
  using assms by (simp add: cell_at_set_at)

lemma prepare_working:
  assumes m: "missing_columns (columns (h ! r)) = []"
    and u: "labels_unique (map (rename_label (rename_dict (col_dict (columns (h ! r))))) (columns (h ! r)))"
  shows "prepare e h r (col_dict (columns (h ! r))) =
     (Suc (Suc (length h)),
      h @ [rename_columns (rename_dict (col_dict (columns (h ! r)))) (h ! r),
           \<lparr>columns = map (rename_label (rename_dict (col_dict (columns (h ! r))))) (columns (h ! r)),
            rows = map (normalized_row e (columns (h ! r))) (rows (h ! r))\<rparr>,
           working_frame e (h ! r)])"
proof -
  let ?cs = "columns (h ! r)"
  let ?c = "map (rename_label (rename_dict (col_dict ?cs))) ?cs"
  note p = renamed_positions [OF m u]
  from positions_distinct [OF m]
  have d: "col_pos ?cs ''status'' \<noteq> col_pos ?cs ''status [new]''"
    "col_pos ?cs ''status'' \<noteq> col_pos ?cs ''date of change''"
    "col_pos ?cs ''status [new]'' \<noteq> col_pos ?cs ''date of change''"
    "col_pos ?cs ''key'' \<noteq> col_pos ?cs ''date of change''"
    "col_pos ?cs ''key'' \<noteq> col_pos ?cs ''status''"
    "col_pos ?cs ''key'' \<noteq> col_pos ?cs ''status [new]''"
    by auto
  have r0: "rename_columns (rename_dict (col_dict ?cs)) (h ! r) = \<lparr>columns = ?c, rows = rows (h ! r)\<rparr>"
    by (simp add: rename_columns_def update_columns)
  have n: "\<And>x. set_at (set_at (set_at x (col_pos ?cs ''status'') (normalize_status (cell_at x (col_pos ?cs ''status''))))
                (col_pos ?cs ''status [new]'') (normalize_status (cell_at x (col_pos ?cs ''status [new]''))))
              (col_pos ?cs ''date of change'') (coerce_datetime e (cell_at x (col_pos ?cs ''date of change'')))
     = normalized_row e ?cs x"
    by (simp add: normalized_row_def status_before_def status_after_def)
  have s3: "set_column ''Date of change'' (map (coerce_datetime e)
       (get_column (set_column ''Status [new]'' (map normalize_status
         (get_column (set_column ''Status'' (map normalize_status
           (get_column \<lparr>columns = ?c, rows = rows (h ! r)\<rparr> ''Status'')) \<lparr>columns = ?c, rows = rows (h ! r)\<rparr>) ''Status [new]''))
         (set_column ''Status'' (map normalize_status
           (get_column \<lparr>columns = ?c, rows = rows (h ! r)\<rparr> ''Status'')) \<lparr>columns = ?c, rows = rows (h ! r)\<rparr>)) ''Date of change''))
       (set_column ''Status [new]'' (map normalize_status
         (get_column (set_column ''Status'' (map normalize_status
           (get_column \<lparr>columns = ?c, rows = rows (h ! r)\<rparr> ''Status'')) \<lparr>columns = ?c, rows = rows (h ! r)\<rparr>) ''Status [new]''))
         (set_column ''Status'' (map normalize_status
           (get_column \<lparr>columns = ?c, rows = rows (h ! r)\<rparr> ''Status'')) \<lparr>columns = ?c, rows = rows (h ! r)\<rparr>))
     = \<lparr>columns = ?c, rows = map (normalized_row e ?cs) (rows (h ! r))\<rparr>"
    unfolding apply_frame p map_map comp_def three_steps [OF d(1,2,3)] n ..
  have k: "\<And>x. cell_at (normalized_row e ?cs x) (col_pos ?cs ''key'') = key_of ?cs x"
    using d by (simp add: normalized_row_def cell_at_set_at key_of_def)
  have t: "\<And>x. cell_at (normalized_row e ?cs x) (col_pos ?cs ''date of change'')
       = coerce_datetime e (cell_at x (col_pos ?cs ''date of change''))"
    by (simp add: normalized_row_def cell_at_set_at)
  have w: "dropna [''Key'', ''Date of change''] \<lparr>columns = ?c, rows = map (normalized_row e ?cs) (rows (h ! r))\<rparr>
      = working_frame e (h ! r)"
    unfolding dropna_frame p
    by (simp add: working_frame_def filter_map comp_def k t retained_def [abs_def] changed_at_def coerce_datetime_NA)
  show ?thesis
    unfolding prepare_heap Let_def r0 s3 w ..
qed

section \<open>Runs of \<open>compute_metrics\<close>\<close>

lemma compute_metrics_run:
  assumes "missing_columns (columns (h ! r)) = []"
    and "labels_unique (map (rename_label (rename_dict (col_dict (columns (h ! r))))) (columns (h ! r)))"
    and "today_local e tz = Some today"
  shows "compute_metrics e h r tz ip dn =
    (Inr (sort_values (map (with_metrics today)
            (merge_outer (first_dates (working_frame e (h ! r)) ip) (first_dates (working_frame e (h ! r)) dn))),
          unique_statuses (working_frame e (h ! r))),
     h @ [rename_columns (rename_dict (col_dict (columns (h ! r)))) (h ! r),
           \<lparr>columns = map (rename_label (rename_dict (col_dict (columns (h ! r))))) (columns (h ! r)),
            rows = map (normalized_row e (columns (h ! r))) (rows (h ! r))\<rparr>,
           working_frame e (h ! r)])"
  using assms by (simp add: compute_metrics_def prepare_working Let_def nth_append)

lemma compute_metrics_Inr:
  assumes "compute_metrics e h r tz ip dn = (Inr (results, statuses), h')"
  obtains today where "missing_columns (columns (h ! r)) = []"
    and "labels_unique (map (rename_label (rename_dict (col_dict (columns (h ! r))))) (columns (h ! r)))"
    and "today_local e tz = Some today"
    and "results = sort_values (map (with_metrics today)
            (merge_outer (first_dates (working_frame e (h ! r)) ip) (first_dates (working_frame e (h ! r)) dn)))"
    and "statuses = unique_statuses (working_frame e (h ! r))"
proof -
  from assms have m: "missing_columns (columns (h ! r)) = []"
    by (auto simp: compute_metrics_def Let_def split: if_splits)
  from assms m have u: "labels_unique (map (rename_label (rename_dict (col_dict (columns (h ! r))))) (columns (h ! r)))"
    by (auto simp: compute_metrics_def Let_def split: if_splits)
  from assms m u obtain today where t: "today_local e tz = Some today"
    by (cases "today_local e tz") (auto simp: compute_metrics_def Let_def split: prod.splits)
  from compute_metrics_run [OF m u t, of ip dn] assms that [OF m u t] show thesis by simp
qed

lemma set_sort_values: "set (sort_values rs) = set rs"
  by (simp add: sort_values_def)

lemma coerce_datetime_cong:
  "pd_to_datetime e1 = pd_to_datetime e2 \<Longrightarrow> coerce_datetime e1 = coerce_datetime e2"
  by (auto simp: coerce_datetime_def fun_eq_iff)

section \<open>The sample call, evaluated\<close>

lemmas string_eval = lower_def upper_def strip_def lower_char_def upper_char_def is_space_def
  upper_letters_def lower_letters_def

lemma sample_col_dict:
  "col_dict (columns sample_raw) ''key'' = Some ''key''"
  "col_dict (columns sample_raw) ''date of change'' = Some ''Date of Change''"
  "col_dict (columns sample_raw) ''status'' = Some ''Status''"
  "col_dict (columns sample_raw) ''status [new]'' = Some ''Status [new]''"
  by (simp_all add: col_dict_def sample_raw_def string_eval)

lemma sample_missing: "missing_columns (columns sample_raw) = []"
  by (simp add: missing_columns_def required_def sample_col_dict)

lemma sample_renamed:
  "map (rename_label (rename_dict (col_dict (columns sample_raw)))) (columns sample_raw)
   = [''Key'', ''Date of change'', ''Status'', ''Status [new]'']"
  by (simp add: rename_dict_def sample_col_dict) (simp add: sample_raw_def rename_label_def)

lemma sample_unique:
  "labels_unique (map (rename_label (rename_dict (col_dict (columns sample_raw)))) (columns sample_raw))"
  by (simp add: sample_renamed labels_unique_def)

lemma sample_pos:
  "col_pos (columns sample_raw) ''key'' = 0"
  "col_pos (columns sample_raw) ''date of change'' = 1"
  "col_pos (columns sample_raw) ''status'' = 2"
  "col_pos (columns sample_raw) ''status [new]'' = 3"
  by (simp_all add: col_pos_def sample_col_dict) (simp_all add: sample_raw_def)

lemma sample_today: "today_local sample_env ''UTC'' = Some 19730"
  by (simp add: today_local_def sample_env_def date_of_def ns_per_day_def)

lemma sample_working:
  "working_frame sample_env sample_raw =
     \<lparr>columns = [''Key'', ''Date of change'', ''Status'', ''Status [new]''],
      rows = [[Str ''K1'', Timestamp 1704067200000000000, Str ''TO DO'', Str ''IN PROGRESS''],
              [Str ''K1'', Timestamp 1704412800000000000, Str ''IN PROGRESS'', Str ''DONE''],
              [Str ''K2'', Timestamp 1704412800000000000, NA, Str ''DONE''],
              [Str '' '', Timestamp 1704067200000000000, Str ''TO DO'', Str ''IN PROGRESS'']]\<rparr>"
  unfolding working_frame_def sample_renamed
  by (simp add: sample_raw_def retained_def key_of_def changed_at_def normalized_row_def
      status_before_def status_after_def sample_pos [unfolded sample_raw_def, simplified] cell_at_def set_at_def
      sample_env_def coerce_datetime_def normalize_status_def ns_per_day_def string_eval)

lemma default_in_progress_set:
  "parse_aliases default_in_progress_aliases = {''IN PROGRESS'', ''IN-PROGRESS'', ''IN_PROGRESS'', ''INPROGRESS''}"
  by (simp add: parse_aliases_def default_in_progress_aliases_def string_eval)
lemma default_done_set:
  "parse_aliases default_done_aliases = {''DONE'', ''CLOSED'', ''RESOLVED''}"
  by (simp add: parse_aliases_def default_done_aliases_def string_eval)

lemmas frame_eval = first_dates_def groupby_min_def select_rows_def get_column_def get_loc_def
  isin_def cell_at_def min_of_def pd_unique_def key_rank_def

lemma sample_in_prog:
  "first_dates (working_frame sample_env sample_raw) (parse_aliases default_in_progress_aliases)
   = [(Str '' '', Some 1704067200000000000), (Str ''K1'', Some 1704067200000000000)]"
  unfolding sample_working default_in_progress_set
  by (simp add: frame_eval less_eq_char_def)

lemma sample_done:
  "first_dates (working_frame sample_env sample_raw) (parse_aliases default_done_aliases)
   = [(Str ''K1'', Some 1704412800000000000), (Str ''K2'', Some 1704412800000000000)]"
  unfolding sample_working default_done_set
  by (simp add: frame_eval less_eq_char_def)

lemma sample_catalog:
  "unique_statuses (working_frame sample_env sample_raw) = [''DONE'', ''IN PROGRESS'', ''TO DO'']"
  unfolding sample_working
  by (simp add: unique_statuses_def get_column_def get_loc_def cell_at_def pd_unique_def less_eq_char_def)

lemma sample_merge:
  "merge_outer [(Str '' '', Some 1704067200000000000), (Str ''K1'', Some 1704067200000000000)]
      [(Str ''K1'', Some 1704412800000000000), (Str ''K2'', Some 1704412800000000000)]
   = [\<lparr>Key = Str '' '', In_Progress_Date = Some 1704067200000000000, Done_Date = None\<rparr>,
      \<lparr>Key = Str ''K1'', In_Progress_Date = Some 1704067200000000000, Done_Date = Some 1704412800000000000\<rparr>,
      \<lparr>Key = Str ''K2'', In_Progress_Date = None, Done_Date = Some 1704412800000000000\<rparr>]"
  by (simp add: merge_outer_def lookup_date_def pd_unique_def key_rank_def less_eq_char_def)

lemma sample_sorted:
  "sort_values (map (with_metrics 19730)
     [\<lparr>Key = Str '' '', In_Progress_Date = Some 1704067200000000000, Done_Date = None\<rparr>,
      \<lparr>Key = Str ''K1'', In_Progress_Date = Some 1704067200000000000, Done_Date = Some 1704412800000000000\<rparr>,
      \<lparr>Key = Str ''K2'', In_Progress_Date = None, Done_Date = Some 1704412800000000000\<rparr>])
   = [\<lparr>Key = Str ''K1'', In_Progress_Date = Some 1704067200000000000, Done_Date = Some 1704412800000000000,
        Days = Some 5, Metric_Type = Some ''Cycle Time''\<rparr>,
      \<lparr>Key = Str ''K2'', In_Progress_Date = None, Done_Date = Some 1704412800000000000,
        Days = None, Metric_Type = Some ''Cycle Time''\<rparr>,
      \<lparr>Key = Str '' '', In_Progress_Date = Some 1704067200000000000, Done_Date = None,
        Days = Some 8, Metric_Type = Some ''Work Item Age''\<rparr>]"
  by (simp add: sort_values_def with_metrics_def row_days_def row_type_def type_rank_def key_rank_def
      date_of_def ns_per_day_def less_eq_char_def)

lemma sample_run:
  "fst (compute_metrics sample_env [sample_raw] 0 ''UTC''
     (parse_aliases default_in_progress_aliases) (parse_aliases default_done_aliases))
   = Inr (sample_results, sample_statuses)"
proof -
  have m: "missing_columns (columns ([sample_raw] ! 0)) = []" by (simp add: sample_missing)
  have u: "labels_unique (map (rename_label (rename_dict (col_dict (columns ([sample_raw] ! 0))))) (columns ([sample_raw] ! 0)))"
    by (simp add: sample_unique)
  have "compute_metrics sample_env [sample_raw] 0 ''UTC''
     (parse_aliases default_in_progress_aliases) (parse_aliases default_done_aliases) =
    (Inr (sort_values (map (with_metrics 19730)
            (merge_outer (first_dates (working_frame sample_env ([sample_raw] ! 0)) (parse_aliases default_in_progress_aliases))
               (first_dates (working_frame sample_env ([sample_raw] ! 0)) (parse_aliases default_done_aliases)))),
          unique_statuses (working_frame sample_env ([sample_raw] ! 0))),
     [sample_raw] @ [rename_columns (rename_dict (col_dict (columns ([sample_raw] ! 0)))) ([sample_raw] ! 0),
           \<lparr>columns = map (rename_label (rename_dict (col_dict (columns ([sample_raw] ! 0))))) (columns ([sample_raw] ! 0)),
            rows = map (normalized_row sample_env (columns ([sample_raw] ! 0))) (rows ([sample_raw] ! 0))\<rparr>,
           working_frame sample_env ([sample_raw] ! 0)])"
    by (rule compute_metrics_run [OF m u sample_today])
  then show ?thesis
    unfolding nth_Cons_0 sample_in_prog sample_done sample_catalog sample_merge sample_sorted
    by (simp add: sample_results_def sample_statuses_def)
qed

lemma sample_call:
  "compute_metrics sample_env [sample_raw] 0 ''UTC''
     (parse_aliases default_in_progress_aliases) (parse_aliases default_done_aliases)
   = (Inr (sample_results, sample_statuses),
      snd (compute_metrics sample_env [sample_raw] 0 ''UTC''
        (parse_aliases default_in_progress_aliases) (parse_aliases default_done_aliases)))"
  using sample_run by (simp add: prod_eq_iff)

section \<open>First transitions\<close>

lemma unique_from_set: "set (unique_from seen xs) = set xs - set seen"
  by (induction xs arbitrary: seen) auto

lemma unique_from_distinct: "distinct (unique_from seen xs)"
  by (induction xs arbitrary: seen) (auto simp: unique_from_set)

lemma set_pd_unique [simp]: "set (pd_unique xs) = set xs"
  by (simp add: pd_unique_def unique_from_set)

lemma distinct_pd_unique [simp]: "distinct (pd_unique xs)"
  by (simp add: pd_unique_def unique_from_distinct)

lemma set_timestamps: "set (timestamps cs) = {t. Timestamp t \<in> set cs}"
  by (induction cs rule: timestamps.induct) auto



lemma min_of_eq:
  "min_of cs = (if timestamps cs = [] then None else Some (Min (set (timestamps cs))))"
  by (cases "timestamps cs") (simp_all add: min_of_def Min.set_eq_fold del: set_simps)

lemma group_values:
  "map snd (filter (\<lambda>kv. fst kv = k) (zip (map K P) (map V P))) = map V (filter (\<lambda>x. K x = k) P)"
  by (induction P) auto

lemma groupby_min_rows:
  "groupby_min \<lparr>columns = c, rows = map N P\<rparr> kc vc
   = map (\<lambda>k. (k, min_of (map (\<lambda>x. cell_at (N x) (index_of vc c))
                     (filter (\<lambda>x. cell_at (N x) (index_of kc c) = k) P))))
       (sort_key key_rank (pd_unique (filter (\<lambda>k. k \<noteq> NA) (map (\<lambda>x. cell_at (N x) (index_of kc c)) P))))"
  using group_values [of _ "\<lambda>x. cell_at (N x) (index_of kc c)" P "\<lambda>x. cell_at (N x) (index_of vc c)"]
  by (simp add: groupby_min_def get_column_def get_loc_def Let_def comp_def)

lemma normalized_cells:
  assumes m: "missing_columns cs = []"
  shows "cell_at (normalized_row e cs x) (col_pos cs ''key'') = key_of cs x"
    and "cell_at (normalized_row e cs x) (col_pos cs ''date of change'')
         = (case changed_at e cs x of Some t \<Rightarrow> Timestamp t | None \<Rightarrow> NA)"
    and "cell_at (normalized_row e cs x) (col_pos cs ''status'') = status_before cs x"
    and "cell_at (normalized_row e cs x) (col_pos cs ''status [new]'') = status_after cs x"
  using positions_distinct [OF m]
  by (auto simp: normalized_row_def cell_at_set_at key_of_def changed_at_def coerce_datetime_def)

lemma select_rows_map: "map fst (filter snd (zip (map f xs) (map p xs))) = map f (filter p xs)"
  by (induction xs) auto

lemma first_dates_events:
  assumes m: "missing_columns (columns raw) = []"
    and u: "labels_unique (map (rename_label (rename_dict (col_dict (columns raw)))) (columns raw))"
  shows "first_dates (working_frame e raw) S
   = map (\<lambda>k. (k, min_of (map (\<lambda>x. case changed_at e (columns raw) x of Some t \<Rightarrow> Timestamp t | None \<Rightarrow> NA)
                     (filter (\<lambda>x. key_of (columns raw) x = k)
                        (filter (\<lambda>x. isin S (status_after (columns raw) x))
                           (filter (retained e (columns raw)) (rows raw)))))))
       (sort_key key_rank (pd_unique (filter (\<lambda>k. k \<noteq> NA) (map (key_of (columns raw))
          (filter (\<lambda>x. isin S (status_after (columns raw) x))
                           (filter (retained e (columns raw)) (rows raw)))))))"
proof -
  let ?cs = "columns raw"
  let ?c = "map (rename_label (rename_dict (col_dict ?cs))) ?cs"
  let ?R = "filter (retained e ?cs) (rows raw)"
  note p = renamed_positions [OF m u]
  note n = normalized_cells [OF m]
  have sel: "select_rows (working_frame e raw) (map (isin S) (get_column (working_frame e raw) ''Status [new]''))
      = \<lparr>columns = ?c, rows = map (normalized_row e ?cs) (filter (\<lambda>x. isin S (status_after ?cs x)) ?R)\<rparr>"
    by (simp add: select_rows_def get_column_def get_loc_def working_frame_def p n comp_def
        select_rows_map)
  show ?thesis
    unfolding first_dates_def sel groupby_min_rows p n
    by (simp add: comp_def)
qed

lemma changed_at_cell:
  "(case changed_at e cs x of Some t \<Rightarrow> Timestamp t | None \<Rightarrow> NA) = Timestamp t \<longleftrightarrow> changed_at e cs x = Some t"
  by (simp split: option.splits)

lemma changed_at_cell':
  "Timestamp t = (case changed_at e cs x of Some t \<Rightarrow> Timestamp t | None \<Rightarrow> NA) \<longleftrightarrow> changed_at e cs x = Some t"
  by (auto split: option.splits)

lemma timestamps_events:
  "set (timestamps (map (\<lambda>x. case changed_at e (columns raw) x of Some t \<Rightarrow> Timestamp t | None \<Rightarrow> NA)
          (filter (\<lambda>x. key_of (columns raw) x = k)
             (filter (\<lambda>x. isin S (status_after (columns raw) x))
                (filter (retained e (columns raw)) (rows raw))))))
   = transition_times e raw S k"
  by (auto simp: set_timestamps transition_times_def changed_at_cell changed_at_cell' image_iff)


lemma transition_times_empty:
  "transition_times e raw S k = {} \<longleftrightarrow>
     k \<notin> key_of (columns raw) ` set (filter (\<lambda>x. isin S (status_after (columns raw) x))
                (filter (retained e (columns raw)) (rows raw)))"
proof
  assume e: "transition_times e raw S k = {}"
  show "k \<notin> key_of (columns raw) ` set (filter (\<lambda>x. isin S (status_after (columns raw) x))
                (filter (retained e (columns raw)) (rows raw)))"
  proof
    assume "k \<in> key_of (columns raw) ` set (filter (\<lambda>x. isin S (status_after (columns raw) x))
                (filter (retained e (columns raw)) (rows raw)))"
    then obtain x where x: "x \<in> set (rows raw)" "retained e (columns raw) x"
      "isin S (status_after (columns raw) x)" "key_of (columns raw) x = k"
      by auto
    from x(2) obtain t where "changed_at e (columns raw) x = Some t"
      by (auto simp: retained_def)
    with x have "t \<in> transition_times e raw S k"
      unfolding transition_times_def by blast
    with e show False by simp
  qed
next
  assume "k \<notin> key_of (columns raw) ` set (filter (\<lambda>x. isin S (status_after (columns raw) x))
                (filter (retained e (columns raw)) (rows raw)))"
  then show "transition_times e raw S k = {}"
    by (auto simp: transition_times_def image_iff)
qed

lemma first_dates_keys:
  assumes m: "missing_columns (columns raw) = []"
    and u: "labels_unique (map (rename_label (rename_dict (col_dict (columns raw)))) (columns raw))"
  shows "fst ` set (first_dates (working_frame e raw) S) = {k. transition_times e raw S k \<noteq> {}}"
proof -
  have "fst ` set (first_dates (working_frame e raw) S)
      = {k \<in> key_of (columns raw) ` set (filter (\<lambda>x. isin S (status_after (columns raw) x))
                (filter (retained e (columns raw)) (rows raw))). k \<noteq> NA}"
    unfolding first_dates_events [OF m u] by (auto simp: image_iff)
  also have "\<dots> = {k. transition_times e raw S k \<noteq> {}}"
    by (auto simp: transition_times_empty retained_def)
  finally show ?thesis .
qed

lemma first_dates_entry:
  assumes m: "missing_columns (columns raw) = []"
    and u: "labels_unique (map (rename_label (rename_dict (col_dict (columns raw)))) (columns raw))"
    and kd: "(k, d) \<in> set (first_dates (working_frame e raw) S)"
  shows "d = Some (Min (transition_times e raw S k))"
proof -
  from kd have "k \<in> fst ` set (first_dates (working_frame e raw) S)" by force
  with first_dates_keys [OF m u] have ne: "transition_times e raw S k \<noteq> {}" by auto
  from kd have "d = min_of (map (\<lambda>x. case changed_at e (columns raw) x of Some t \<Rightarrow> Timestamp t | None \<Rightarrow> NA)
          (filter (\<lambda>x. key_of (columns raw) x = k)
             (filter (\<lambda>x. isin S (status_after (columns raw) x))
                (filter (retained e (columns raw)) (rows raw)))))"
    unfolding first_dates_events [OF m u] by auto
  also have "\<dots> = Some (Min (transition_times e raw S k))"
    unfolding min_of_eq timestamps_events [symmetric] set_empty [symmetric]
    using ne [unfolded timestamps_events [symmetric]] by simp
  finally show ?thesis .
qed

lemma lookup_first_dates:
  assumes m: "missing_columns (columns raw) = []"
    and u: "labels_unique (map (rename_label (rename_dict (col_dict (columns raw)))) (columns raw))"
  shows "lookup_date (first_dates (working_frame e raw) S) k
       = (if transition_times e raw S k = {} then None else Some (Min (transition_times e raw S k)))"
proof (cases "map_of (first_dates (working_frame e raw) S) k")
  case None
  then have "k \<notin> fst ` set (first_dates (working_frame e raw) S)"
    by (simp add: map_of_eq_None_iff)
  with first_dates_keys [OF m u] None show ?thesis by (auto simp: lookup_date_def)
next
  case (Some d)
  then have kd: "(k, d) \<in> set (first_dates (working_frame e raw) S)" by (rule map_of_SomeD)
  then have "k \<in> fst ` set (first_dates (working_frame e raw) S)" by force
  with first_dates_keys [OF m u] have "transition_times e raw S k \<noteq> {}" by auto
  with first_dates_entry [OF m u kd] Some show ?thesis by (simp add: lookup_date_def)
qed

lemma set_merge_outer:
  "set (merge_outer ip dn)
   = (\<lambda>k. \<lparr>Key = k, In_Progress_Date = lookup_date ip k, Done_Date = lookup_date dn k\<rparr>)
       ` (fst ` set ip \<union> fst ` set dn)"
  by (simp add: merge_outer_def image_Un)

lemma result_rows:
  assumes run: "compute_metrics e h df_raw tz ip dn = (Inr (results, statuses), h')"
    and r: "r \<in> set results"
  obtains today where "today_local e tz = Some today"
    and "transition_times e (h ! df_raw) ip (Key r) \<noteq> {} \<or> transition_times e (h ! df_raw) dn (Key r) \<noteq> {}"
    and "In_Progress_Date r = (if transition_times e (h ! df_raw) ip (Key r) = {} then None
                                else Some (Min (transition_times e (h ! df_raw) ip (Key r))))"
    and "Done_Date r = (if transition_times e (h ! df_raw) dn (Key r) = {} then None
                                else Some (Min (transition_times e (h ! df_raw) dn (Key r))))"
    and "Days r = row_days today \<lparr>Key = Key r, In_Progress_Date = In_Progress_Date r, Done_Date = Done_Date r\<rparr>"
    and "Metric_Type r = row_type \<lparr>Key = Key r, In_Progress_Date = In_Progress_Date r, Done_Date = Done_Date r\<rparr>"
proof -
  from run obtain today where m: "missing_columns (columns (h ! df_raw)) = []"
    and u: "labels_unique (map (rename_label (rename_dict (col_dict (columns (h ! df_raw))))) (columns (h ! df_raw)))"
    and t: "today_local e tz = Some today"
    and res: "results = sort_values (map (with_metrics today)
            (merge_outer (first_dates (working_frame e (h ! df_raw)) ip) (first_dates (working_frame e (h ! df_raw)) dn)))"
    by (rule compute_metrics_Inr)
  from r res obtain k where k: "k \<in> fst ` set (first_dates (working_frame e (h ! df_raw)) ip)
        \<union> fst ` set (first_dates (working_frame e (h ! df_raw)) dn)"
    and tr: "r = with_metrics today \<lparr>Key = k,
        In_Progress_Date = lookup_date (first_dates (working_frame e (h ! df_raw)) ip) k,
        Done_Date = lookup_date (first_dates (working_frame e (h ! df_raw)) dn) k\<rparr>"
    unfolding res set_sort_values set_map set_merge_outer by blast
  from tr have key: "Key r = k" by (simp add: with_metrics_def)
  show thesis
  proof (rule that [OF t])
    from k show "transition_times e (h ! df_raw) ip (Key r) \<noteq> {} \<or> transition_times e (h ! df_raw) dn (Key r) \<noteq> {}"
      unfolding first_dates_keys [OF m u] key by blast
    from tr show "In_Progress_Date r = (if transition_times e (h ! df_raw) ip (Key r) = {} then None
                                else Some (Min (transition_times e (h ! df_raw) ip (Key r))))"
      unfolding key by (simp add: with_metrics_def lookup_first_dates [OF m u])
    from tr show "Done_Date r = (if transition_times e (h ! df_raw) dn (Key r) = {} then None
                                else Some (Min (transition_times e (h ! df_raw) dn (Key r))))"
      unfolding key by (simp add: with_metrics_def lookup_first_dates [OF m u])
    from tr show "Days r = row_days today \<lparr>Key = Key r, In_Progress_Date = In_Progress_Date r, Done_Date = Done_Date r\<rparr>"
      by (simp add: with_metrics_def row_days_def)
    from tr show "Metric_Type r = row_type \<lparr>Key = Key r, In_Progress_Date = In_Progress_Date r, Done_Date = Done_Date r\<rparr>"
      by (simp add: with_metrics_def row_type_def)
  qed
qed



section \<open>Frames with the expected labels\<close>

lemma canonical_col_dict:
  "col_dict [''Key'', ''Date of change'', ''Status'', ''Status [new]''] ''key'' = Some ''Key''"
  "col_dict [''Key'', ''Date of change'', ''Status'', ''Status [new]''] ''date of change'' = Some ''Date of change''"
  "col_dict [''Key'', ''Date of change'', ''Status'', ''Status [new]''] ''status'' = Some ''Status''"
  "col_dict [''Key'', ''Date of change'', ''Status'', ''Status [new]''] ''status [new]'' = Some ''Status [new]''"
  by (simp_all add: col_dict_def string_eval)

lemma canonical_missing:
  "missing_columns [''Key'', ''Date of change'', ''Status'', ''Status [new]''] = []"
  by (simp add: missing_columns_def required_def canonical_col_dict)

lemma canonical_renamed:
  "map (rename_label (rename_dict (col_dict [''Key'', ''Date of change'', ''Status'', ''Status [new]''])))
     [''Key'', ''Date of change'', ''Status'', ''Status [new]'']
   = [''Key'', ''Date of change'', ''Status'', ''Status [new]'']"
  by (simp add: rename_dict_def canonical_col_dict rename_label_def)

lemma canonical_unique:
  "labels_unique (map (rename_label (rename_dict (col_dict [''Key'', ''Date of change'', ''Status'', ''Status [new]''])))
     [''Key'', ''Date of change'', ''Status'', ''Status [new]''])"
  unfolding canonical_renamed by (simp add: labels_unique_def)

lemma canonical_pos:
  "col_pos [''Key'', ''Date of change'', ''Status'', ''Status [new]''] ''key'' = 0"
  "col_pos [''Key'', ''Date of change'', ''Status'', ''Status [new]''] ''date of change'' = 1"
  "col_pos [''Key'', ''Date of change'', ''Status'', ''Status [new]''] ''status'' = 2"
  "col_pos [''Key'', ''Date of change'', ''Status'', ''Status [new]''] ''status [new]'' = 3"
  by (simp_all add: col_pos_def canonical_col_dict)

lemma canonical_run:
  assumes c: "columns (h ! r) = [''Key'', ''Date of change'', ''Status'', ''Status [new]'']"
    and t: "today_local e tz = Some today"
  shows "fst (compute_metrics e h r tz ip dn) =
    Inr (sort_values (map (with_metrics today)
            (merge_outer (first_dates (working_frame e (h ! r)) ip) (first_dates (working_frame e (h ! r)) dn))),
          unique_statuses (working_frame e (h ! r)))"
proof -
  have m: "missing_columns (columns (h ! r)) = []"
    unfolding c by (rule canonical_missing)
  have u: "labels_unique (map (rename_label (rename_dict (col_dict (columns (h ! r))))) (columns (h ! r)))"
    unfolding c by (rule canonical_unique)
  show ?thesis
    unfolding compute_metrics_run [OF m u t] by simp
qed

lemmas row_eval = retained_def key_of_def changed_at_def normalized_row_def
  status_before_def status_after_def cell_at_def set_at_def coerce_datetime_def normalize_status_def

lemma done_only_working:
  "working_frame sample_env done_only_raw =
     \<lparr>columns = [''Key'', ''Date of change'', ''Status'', ''Status [new]''],
      rows = [[Str ''K2'', Timestamp 1704412800000000000, Str ''TO DO'', Str ''DONE'']]\<rparr>"
  unfolding working_frame_def done_only_raw_def dataframe.simps canonical_renamed
  by (simp add: row_eval canonical_pos sample_env_def ns_per_day_def string_eval)

section \<open>The status catalogue\<close>




section \<open>Properties of \<open>compute_metrics\<close>\<close>

text \<open>
  Claim C1 (classification exclusivity): every result row has a metric type or no date at
  all, and no row has the type Cycle Time while its in-progress date is absent.
  \<open>row_days\<close> gives no days to a row without an in-progress date, but \<open>row_type\<close> tests
  the done date first: an item whose only transition is a done transition is returned with
  the type Cycle Time, no in-progress date and no days. The call below is such an item, with
  the default alias sets.
\<close>

theorem done_only_is_cycle_time:
  "fst (compute_metrics sample_env [done_only_raw] 0 ''UTC''
          (parse_aliases default_in_progress_aliases) (parse_aliases default_done_aliases))
   = Inr ([\<lparr>Key = Str ''K2'', In_Progress_Date = None, Done_Date = Some 1704412800000000000,
             Days = None, Metric_Type = Some ''Cycle Time''\<rparr>],
          [''DONE'', ''TO DO''])"
proof -
  have c: "columns ([done_only_raw] ! 0) = [''Key'', ''Date of change'', ''Status'', ''Status [new]'']"
    by (simp add: done_only_raw_def)
  have ip: "first_dates (working_frame sample_env done_only_raw) (parse_aliases default_in_progress_aliases) = []"
    unfolding done_only_working default_in_progress_set by (simp add: frame_eval)
  have dn: "first_dates (working_frame sample_env done_only_raw) (parse_aliases default_done_aliases)
      = [(Str ''K2'', Some 1704412800000000000)]"
    unfolding done_only_working default_done_set by (simp add: frame_eval)
  have st: "unique_statuses (working_frame sample_env done_only_raw) = [''DONE'', ''TO DO'']"
    unfolding done_only_working
    by (simp add: unique_statuses_def get_column_def get_loc_def cell_at_def pd_unique_def less_eq_char_def)
  show ?thesis
    unfolding canonical_run [OF c sample_today] nth_Cons_0 ip dn st
    by (simp add: merge_outer_def lookup_date_def pd_unique_def sort_values_def with_metrics_def
        row_days_def row_type_def)
qed






text \<open>
  Claim C4 (missing columns): the four logical names are matched against the lower-cased
  column names; when some logical name has no match the call fails with the error that lists
  exactly the unmatched names, leaves the heap as it was and returns no result, and when all
  match it does not fail so.
\<close>

theorem missing_columns_error:
  "(\<forall>l c. col_dict (columns (h ! df_raw)) l = Some c \<longrightarrow> c \<in> set (columns (h ! df_raw)) \<and> lower c = l)
   \<and> (filter (\<lambda>l. \<forall>c \<in> set (columns (h ! df_raw)). lower c \<noteq> l) required \<noteq> [] \<longrightarrow>
      compute_metrics e h df_raw tz_name in_prog_set done_set =
        (Inl (MissingColumns (filter (\<lambda>l. \<forall>c \<in> set (columns (h ! df_raw)). lower c \<noteq> l) required)), h))
   \<and> (filter (\<lambda>l. \<forall>c \<in> set (columns (h ! df_raw)). lower c \<noteq> l) required = [] \<longrightarrow>
      (\<forall>m. fst (compute_metrics e h df_raw tz_name in_prog_set done_set) \<noteq> Inl (MissingColumns m)))"
proof -
  have "\<forall>l c. col_dict (columns (h ! df_raw)) l = Some c \<longrightarrow> c \<in> set (columns (h ! df_raw)) \<and> lower c = l"
    using col_dict_Some by blast
  then show ?thesis
    by (simp add: compute_metrics_def missing_columns_eq [symmetric] prepare_heap Let_def
        split: option.splits)
qed

theorem missing_columns_error_witness:
  "compute_metrics sample_env
     [\<lparr>columns = [''Key'', ''Date of change'', ''Status''],
       rows = [[Str ''K1'', Str ''2024-01-01'', Str ''To Do'']]\<rparr>] 0 ''UTC''
     (parse_aliases default_in_progress_aliases) (parse_aliases default_done_aliases)
   = (Inl (MissingColumns [''status [new]'']),
      [\<lparr>columns = [''Key'', ''Date of change'', ''Status''],
        rows = [[Str ''K1'', Str ''2024-01-01'', Str ''To Do'']]\<rparr>])"
proof -
  have "filter (\<lambda>l. \<forall>c \<in> set [''Key'', ''Date of change'', ''Status'']. lower c \<noteq> l) required
      = [''status [new]'']"
    by (simp add: required_def string_eval)
  with missing_columns_error [of "[\<lparr>columns = [''Key'', ''Date of change'', ''Status''],
       rows = [[Str ''K1'', Str ''2024-01-01'', Str ''To Do'']]\<rparr>]" 0 sample_env "''UTC''"
     "parse_aliases default_in_progress_aliases" "parse_aliases default_done_aliases"]
  show ?thesis by simp
qed



text \<open>
  Claim C6 (scenario): for the two rows (K1, 2024-01-01, ..., IN PROGRESS) and
  (K1, 2024-01-05, ..., DONE) and the default alias sets the call returns one row, with the
  key K1, five days and the type Cycle Time. The old statuses are any cells; the parser is one
  that reads the two texts as instants of the days 19723 and 19727 after the epoch, which are
  2024-01-01 and 2024-01-05; the time zone is one that \<open>pytz\<close> knows.
\<close>

theorem two_row_scenario:
  assumes raw: "h ! df_raw =
      \<lparr>columns = [''Key'', ''Date of change'', ''Status'', ''Status [new]''],
       rows = [[Str ''K1'', Str ''2024-01-01'', s1, Str ''IN PROGRESS''],
               [Str ''K1'', Str ''2024-01-05'', s2, Str ''DONE'']]\<rparr>"
    and t1: "pd_to_datetime e (Str ''2024-01-01'') = Some t1" "date_of t1 = 19723"
    and t2: "pd_to_datetime e (Str ''2024-01-05'') = Some t2" "date_of t2 = 19727"
    and tz: "pytz_timezone e tz_name = Some local_tz"
  shows "\<exists>row statuses h'.
      compute_metrics e h df_raw tz_name
        (parse_aliases default_in_progress_aliases) (parse_aliases default_done_aliases)
        = (Inr ([row], statuses), h')
      \<and> Key row = Str ''K1'' \<and> Days row = Some 5 \<and> Metric_Type row = Some ''Cycle Time''"
proof -
  have c: "columns (h ! df_raw) = [''Key'', ''Date of change'', ''Status'', ''Status [new]'']"
    by (simp add: raw)
  from tz have today: "today_local e tz_name = Some (date_of (utc_now e + local_tz (utc_now e)))"
    by (simp add: today_local_def)
  have w: "working_frame e (h ! df_raw) =
     \<lparr>columns = [''Key'', ''Date of change'', ''Status'', ''Status [new]''],
      rows = [[Str ''K1'', Timestamp t1, normalize_status s1, Str ''IN PROGRESS''],
              [Str ''K1'', Timestamp t2, normalize_status s2, Str ''DONE'']]\<rparr>"
    unfolding working_frame_def raw dataframe.simps canonical_renamed
    by (simp add: retained_def key_of_def changed_at_def normalized_row_def
      status_before_def status_after_def cell_at_def set_at_def coerce_datetime_def canonical_pos t1 t2)
       (simp add: normalize_status_def string_eval)
  have ip: "first_dates (working_frame e (h ! df_raw)) (parse_aliases default_in_progress_aliases)
      = [(Str ''K1'', Some t1)]"
    unfolding w default_in_progress_set by (simp add: frame_eval)
  have dn: "first_dates (working_frame e (h ! df_raw)) (parse_aliases default_done_aliases)
      = [(Str ''K1'', Some t2)]"
    unfolding w default_done_set by (simp add: frame_eval)
  have "fst (compute_metrics e h df_raw tz_name
        (parse_aliases default_in_progress_aliases) (parse_aliases default_done_aliases))
      = Inr ([\<lparr>Key = Str ''K1'', In_Progress_Date = Some t1, Done_Date = Some t2,
               Days = Some 5, Metric_Type = Some ''Cycle Time''\<rparr>],
             unique_statuses (working_frame e (h ! df_raw)))"
    unfolding canonical_run [OF c today] ip dn
    by (simp add: merge_outer_def lookup_date_def pd_unique_def sort_values_def with_metrics_def
        row_days_def row_type_def t1 t2)
  then show ?thesis
    by (cases "compute_metrics e h df_raw tz_name
        (parse_aliases default_in_progress_aliases) (parse_aliases default_done_aliases)") force
qed

theorem two_row_scenario_witness:
  "\<exists>row statuses h'.
      compute_metrics sample_env
        [\<lparr>columns = [''Key'', ''Date of change'', ''Status'', ''Status [new]''],
          rows = [[Str ''K1'', Str ''2024-01-01'', Str ''To Do'', Str ''IN PROGRESS''],
                  [Str ''K1'', Str ''2024-01-05'', Str ''IN PROGRESS'', Str ''DONE'']]\<rparr>] 0 ''UTC''
        (parse_aliases default_in_progress_aliases) (parse_aliases default_done_aliases)
        = (Inr ([row], statuses), h')
      \<and> Key row = Str ''K1'' \<and> Days row = Some 5 \<and> Metric_Type row = Some ''Cycle Time''"
  by (rule two_row_scenario [where ?t1.0 = "19723 * ns_per_day" and ?t2.0 = "19727 * ns_per_day"
        and local_tz = "\<lambda>t. 0"])
     (simp_all add: sample_env_def date_of_def ns_per_day_def)



text \<open>
  Claim C8 (determinism): two calls on equal frames with the same time zone name and alias
  sets, a parser that answers alike and the same current date return the same results and
  statuses, wherever the frames lie in the heap and whatever the instant of the clock.
\<close>

theorem same_inputs_same_outputs:
  assumes "pd_to_datetime e1 = pd_to_datetime e2"
    and "today_local e1 tz_name = today_local e2 tz_name"
    and "h1 ! r1 = h2 ! r2"
  shows "fst (compute_metrics e1 h1 r1 tz_name in_prog_set done_set)
       = fst (compute_metrics e2 h2 r2 tz_name in_prog_set done_set)"
  using assms coerce_datetime_cong [OF assms(1)]
  by (simp add: compute_metrics_def prepare_heap Let_def nth_append split: option.splits)

theorem same_inputs_same_outputs_witness:
  "fst (compute_metrics sample_env [sample_raw] 0 ''UTC''
          (parse_aliases default_in_progress_aliases) (parse_aliases default_done_aliases))
   = fst (compute_metrics (sample_env\<lparr>utc_now := 19730 * ns_per_day + 3600000000000\<rparr>)
          [done_only_raw, sample_raw] 1 ''UTC''
          (parse_aliases default_in_progress_aliases) (parse_aliases default_done_aliases))"
  by (rule same_inputs_same_outputs)
     (simp_all add: today_local_def sample_env_def date_of_def ns_per_day_def)

text \<open>
  Claim C9 (no side effect on the input): the heap after the call is the heap before it
  followed by the frames the call created, so the caller's frame, its columns and its cells
  are as they were: the renaming, the normalisation and the filtering work on new frames.
\<close>

theorem caller_frame_unchanged:
  "(\<exists>created. snd (compute_metrics e h df_raw tz_name in_prog_set done_set) = h @ created)
   \<and> (df_raw < length h \<longrightarrow>
        snd (compute_metrics e h df_raw tz_name in_prog_set done_set) ! df_raw = h ! df_raw)"
proof -
  have "\<exists>created. snd (compute_metrics e h df_raw tz_name in_prog_set done_set) = h @ created"
    by (simp add: compute_metrics_def prepare_heap Let_def split: option.splits)
  then show ?thesis by (auto simp: nth_append)
qed

theorem caller_frame_unchanged_witness:
  "(0::nat) < length [sample_raw]
   \<and> snd (compute_metrics sample_env [sample_raw] 0 ''UTC''
        (parse_aliases default_in_progress_aliases) (parse_aliases default_done_aliases)) ! 0
     = sample_raw"
  using caller_frame_unchanged [of sample_env "[sample_raw]" 0 "''UTC''"
      "parse_aliases default_in_progress_aliases" "parse_aliases default_done_aliases"]
  by simp

text \<open>
  Claim C10 (a date is always present): every result row has an in-progress date or a done
  date, and so a metric type: the branch of \<open>row_type\<close> that gives no type is never taken,
  since the rows come from the outer join of two tables of per-key minima.
\<close>

theorem some_date_present:
  assumes "compute_metrics e h df_raw tz_name in_prog_set done_set = (Inr (results, statuses), h')"
    and "r \<in> set results"
  shows "((\<exists>t. In_Progress_Date r = Some t) \<or> (\<exists>t. Done_Date r = Some t))
       \<and> (Metric_Type r = Some ''Cycle Time'' \<or> Metric_Type r = Some ''Work Item Age'')"
proof -
  from assms obtain today where
    ne: "transition_times e (h ! df_raw) in_prog_set (Key r) \<noteq> {}
         \<or> transition_times e (h ! df_raw) done_set (Key r) \<noteq> {}"
    and ip: "In_Progress_Date r = (if transition_times e (h ! df_raw) in_prog_set (Key r) = {} then None
                                else Some (Min (transition_times e (h ! df_raw) in_prog_set (Key r))))"
    and dn: "Done_Date r = (if transition_times e (h ! df_raw) done_set (Key r) = {} then None
                                else Some (Min (transition_times e (h ! df_raw) done_set (Key r))))"
    and ty: "Metric_Type r = row_type \<lparr>Key = Key r, In_Progress_Date = In_Progress_Date r, Done_Date = Done_Date r\<rparr>"
    by (rule result_rows)
  from ne ip dn have "(\<exists>t. In_Progress_Date r = Some t) \<or> (\<exists>t. Done_Date r = Some t)" by auto
  with ty show ?thesis by (auto simp: row_type_def)
qed

theorem some_date_present_witness:
  "(\<exists>t. Done_Date (sample_results ! 1) = Some t)
   \<and> Metric_Type (sample_results ! 1) = Some ''Cycle Time''"
  using some_date_present [OF sample_call, of "sample_results ! 1"]
  by (simp add: sample_results_def)

end
